theory Spec2Isabelle
  imports Complex_Main
begin

section \<open>Data model of \<open>src/app.py\<close>\<close>

text \<open>
  The program keeps its registry of companies in \<open>st.session_state.companies\<close>
  (written once, by \<open>setup_session_state\<close>). The methods of
  \<open>MultiCompanyAccounting\<close> and the page functions do not read that entry: they read
  the attribute \<open>self.companies\<close> of the instance. No statement of the file assigns
  this attribute, and the class has neither a property nor \<open>__getattr__\<close> of that
  name, so the look-up raises \<open>AttributeError\<close>. The model keeps both places in the
  store and follows the code: a method that reads the attribute raises when the
  attribute is absent.

  Amounts are Python \<open>Decimal\<close> values, modelled as rationals. \<open>Decimal\<close> rounds
  a sum to 28 significant digits and \<open>float\<close> rounds to a double; the model does not
  round. In a store without the attribute the only arithmetic that runs is the
  comparison of the two totals in \<open>record_transaction\<close>, and there both outcomes of
  the comparison end in \<open>False\<close> with the store unchanged.
\<close>

type_synonym decimal = rat

text \<open>\<open>float(d)\<close> of a decimal and \<open>Decimal(str(x))\<close> of a float, as rationals.\<close>

definition to_float :: "decimal \<Rightarrow> rat" where
  "to_float d = d"


text \<open>An account of the chart: the dictionary with keys \<open>name\<close>, \<open>type\<close>, \<open>balance\<close>.\<close>

record account =
  acc_name :: string
  acc_type :: string
  balance :: decimal

text \<open>
  An entry of a posting: the dictionary with key \<open>account\<close> and the optional keys
  \<open>debit\<close> and \<open>credit\<close> (\<open>None\<close> when the key is absent).
\<close>

record entry =
  account :: string
  debit :: "decimal option"
  credit :: "decimal option"

type_synonym date = "nat \<times> nat \<times> nat"

record transaction =
  tx_id :: nat
  date :: date
  description :: string
  entries :: "entry list"
  vat_rate :: rat

text \<open>
  The chart is a Python dictionary; it is kept as an association list in insertion
  order, with pairwise different codes.
\<close>

type_synonym chart = "(string \<times> account) list"

record company =
  name :: string
  transactions :: "transaction list"
  accounts :: chart
  color :: string

type_synonym companies = "string \<rightharpoonup> company"

datatype error = AttributeError | KeyError

text \<open>
  The store: the registry under \<open>st.session_state.companies\<close>, and the attribute
  \<open>companies\<close> of the instance, \<open>None\<close> when the instance has no such attribute.
\<close>

record store =
  session_companies :: companies
  self_companies :: "companies option"

section \<open>The chart of accounts and the initial store\<close>

definition acct :: "string \<Rightarrow> string \<Rightarrow> account" where
  "acct n t = \<lparr>acc_name = n, acc_type = t, balance = 0\<rparr>"

definition create_chart_of_accounts :: chart where
  "create_chart_of_accounts =
    [(''1000'', acct ''Cash'' ''asset''),
     (''1100'', acct ''Accounts Receivable'' ''asset''),
     (''1200'', acct ''Inventory'' ''asset''),
     (''1500'', acct ''Equipment'' ''asset''),
     (''1600'', acct ''Vehicles'' ''asset''),
     (''2000'', acct ''Accounts Payable'' ''liability''),
     (''2100'', acct ''VAT Payable'' ''liability''),
     (''2500'', acct ''Bank Loan'' ''liability''),
     (''2600'', acct ''Credit Card'' ''liability''),
     (''3000'', acct ''Owner's Capital'' ''equity''),
     (''3900'', acct ''Retained Earnings'' ''equity''),
     (''3950'', acct ''Current Year Earnings'' ''equity''),
     (''4000'', acct ''Product Sales'' ''income''),
     (''4100'', acct ''Service Revenue'' ''income''),
     (''4200'', acct ''Consulting Income'' ''income''),
     (''5000'', acct ''Cost of Goods Sold'' ''expense''),
     (''5100'', acct ''Salary Expense'' ''expense''),
     (''5200'', acct ''Rent Expense'' ''expense''),
     (''5300'', acct ''Utilities Expense'' ''expense''),
     (''5400'', acct ''Marketing Expense'' ''expense''),
     (''5500'', acct ''Office Supplies'' ''expense''),
     (''5600'', acct ''Travel Expense'' ''expense''),
     (''5700'', acct ''Professional Fees'' ''expense'')]"

text \<open>The dictionary that \<open>setup_session_state\<close> writes (lines 50 to 63).\<close>

definition initial_companies :: companies where
  "initial_companies =
    [''company_1'' \<mapsto>
       \<lparr>name = ''Tech Solutions Ltd'', transactions = [],
        accounts = create_chart_of_accounts, color = ''#1E88E5''\<rparr>,
     ''company_2'' \<mapsto>
       \<lparr>name = ''Consulting Partners Ltd'', transactions = [],
        accounts = create_chart_of_accounts, color = ''#FF6B00''\<rparr>]"

text \<open>
  The store after \<open>MultiCompanyAccounting()\<close>: \<open>__init__\<close> only calls
  \<open>setup_session_state\<close>, which fills the session entry; the instance gets no
  attribute.
\<close>

definition setup_session_state :: store where
  "setup_session_state = \<lparr>session_companies = initial_companies, self_companies = None\<rparr>"

section \<open>Reading the registry\<close>

text \<open>\<open>self.companies\<close>.\<close>

definition getattr_companies :: "store \<Rightarrow> error + companies" where
  "getattr_companies cs =
     (case self_companies cs of None \<Rightarrow> Inl AttributeError | Some comps \<Rightarrow> Inr comps)"

text \<open>\<open>self.companies[company_id]\<close>.\<close>

definition company_of :: "store \<Rightarrow> string \<Rightarrow> error + company" where
  "company_of cs company_id =
     (case getattr_companies cs of
        Inl e \<Rightarrow> Inl e
      | Inr comps \<Rightarrow> (case comps company_id of None \<Rightarrow> Inl KeyError | Some c \<Rightarrow> Inr c))"

text \<open>Sequencing of statements that may raise.\<close>

definition and_then :: "error + 'a \<Rightarrow> ('a \<Rightarrow> error + 'b) \<Rightarrow> error + 'b" where
  "and_then m f = (case m of Inl e \<Rightarrow> Inl e | Inr x \<Rightarrow> f x)"

section \<open>Posting a transaction\<close>

text \<open>\<open>entry.get("debit", 0)\<close> and \<open>entry.get("credit", 0)\<close>.\<close>

definition get_debit :: "entry \<Rightarrow> decimal" where
  "get_debit e = (case debit e of None \<Rightarrow> 0 | Some d \<Rightarrow> d)"

definition get_credit :: "entry \<Rightarrow> decimal" where
  "get_credit e = (case credit e of None \<Rightarrow> 0 | Some c \<Rightarrow> c)"

definition total_debits :: "entry list \<Rightarrow> decimal" where
  "total_debits es = sum_list (map get_debit es)"

definition total_credits :: "entry list \<Rightarrow> decimal" where
  "total_credits es = sum_list (map get_credit es)"

text \<open>
  \<open>accounts[k]["balance"] = f(accounts[k]["balance"])\<close> for a code \<open>k\<close> of the chart;
  a chart without \<open>k\<close> is returned as it is.
\<close>

fun update_balance :: "string \<Rightarrow> (decimal \<Rightarrow> decimal) \<Rightarrow> chart \<Rightarrow> chart" where
  "update_balance k f [] = []"
| "update_balance k f ((k', a) # rest) =
     (if k = k' then (k', a\<lparr>balance := f (balance a)\<rparr>) # rest
      else (k', a) # update_balance k f rest)"

text \<open>
  The body of the loop over the entries, once the chart of the company has been read:
  an entry whose code is not in the chart is skipped; otherwise its debit, when
  present, is added to the balance and its credit, when present, is subtracted.
\<close>

definition apply_entry :: "entry \<Rightarrow> chart \<Rightarrow> chart" where
  "apply_entry e accs =
     (if map_of accs (account e) \<noteq> None then
        let accs1 = (case debit e of None \<Rightarrow> accs
                     | Some d \<Rightarrow> update_balance (account e) (\<lambda>b. b + d) accs);
            accs2 = (case credit e of None \<Rightarrow> accs1
                     | Some c \<Rightarrow> update_balance (account e) (\<lambda>b. b - c) accs1)
        in accs2
      else accs)"

definition apply_entries :: "entry list \<Rightarrow> chart \<Rightarrow> chart" where
  "apply_entries es accs = fold apply_entry es accs"

text \<open>
  The statements of the \<open>try\<close> block after the comparison of the totals (lines 113 to
  134). The first of them that runs reads \<open>self.companies\<close>: line 116 in the first
  round of the loop, line 125 when there is no entry. What they write, they write
  into the registry the attribute holds.
\<close>

definition update_and_append ::
  "store \<Rightarrow> string \<Rightarrow> date \<Rightarrow> string \<Rightarrow> entry list \<Rightarrow> rat \<Rightarrow> error + store" where
  "update_and_append cs company_id dt descr es vat =
     and_then (getattr_companies cs) (\<lambda>comps.
     and_then (company_of cs company_id) (\<lambda>c.
       let accs = apply_entries es (accounts c);
           tx = \<lparr>tx_id = length (transactions c) + 1, date = dt, description = descr,
                 entries = es, vat_rate = vat\<rparr>
       in Inr (cs\<lparr>self_companies :=
                   Some (comps(company_id \<mapsto> c\<lparr>accounts := accs,
                                                  transactions := transactions c @ [tx]\<rparr>))\<rparr>)))"

text \<open>
  \<open>record_transaction\<close> returns its boolean and the store after the call. The
  \<open>except\<close> clause turns every exception of the block into \<open>False\<close>; an exception is
  raised by the first look-up, before anything is written.
\<close>

definition record_transaction ::
  "store \<Rightarrow> string \<Rightarrow> date \<Rightarrow> string \<Rightarrow> entry list \<Rightarrow> rat \<Rightarrow> bool \<times> store" where
  "record_transaction cs company_id dt descr es vat =
     (if total_debits es \<noteq> total_credits es then (False, cs)
      else case update_and_append cs company_id dt descr es vat of
        Inl e \<Rightarrow> (False, cs)
      | Inr cs' \<Rightarrow> (True, cs'))"

section \<open>Reports\<close>

definition type_total :: "string \<Rightarrow> chart \<Rightarrow> decimal" where
  "type_total ty accs = sum_list (map (\<lambda>(k, a). balance a) (filter (\<lambda>(k, a). acc_type a = ty) accs))"

text \<open>The reports have no \<open>try\<close>: what a look-up raises, they raise.\<close>

definition get_account_balance :: "store \<Rightarrow> string \<Rightarrow> string \<Rightarrow> error + decimal" where
  "get_account_balance cs company_id account_type =
     and_then (company_of cs company_id) (\<lambda>c. Inr (type_total account_type (accounts c)))"

definition calculate_net_income :: "store \<Rightarrow> string \<Rightarrow> error + rat" where
  "calculate_net_income cs company_id =
     and_then (get_account_balance cs company_id ''income'') (\<lambda>revenue.
     and_then (get_account_balance cs company_id ''expense'') (\<lambda>expenses.
       Inr (to_float (revenue - expenses))))"



text \<open>
  \<open>get_transaction_history\<close> flattens the log, one row per entry; the account name of
  an entry whose code is not in the chart raises \<open>KeyError\<close>.
\<close>

record history_row =
  row_date :: date
  row_description :: string
  row_account :: string
  row_debit :: rat
  row_credit :: rat
  row_company :: string

fun history_rows :: "company \<Rightarrow> transaction \<Rightarrow> entry list \<Rightarrow> error + history_row list" where
  "history_rows c tx [] = Inr []"
| "history_rows c tx (e # es) =
     (case map_of (accounts c) (account e) of
        None \<Rightarrow> Inl KeyError
      | Some a \<Rightarrow>
          and_then (history_rows c tx es) (\<lambda>rest.
            Inr (\<lparr>row_date = date tx, row_description = description tx,
                   row_account = account e @ '' - '' @ acc_name a,
                   row_debit = to_float (get_debit e), row_credit = to_float (get_credit e),
                   row_company = name c\<rparr> # rest)))"

fun history_of :: "company \<Rightarrow> transaction list \<Rightarrow> error + history_row list" where
  "history_of c [] = Inr []"
| "history_of c (tx # txs) =
     and_then (history_rows c tx (entries tx)) (\<lambda>rows.
     and_then (history_of c txs) (\<lambda>rest. Inr (rows @ rest)))"

definition get_transaction_history :: "store \<Rightarrow> string \<Rightarrow> error + history_row list" where
  "get_transaction_history cs company_id =
     and_then (company_of cs company_id) (\<lambda>c. history_of c (transactions c))"

section \<open>Company settings\<close>



section \<open>Sequences of operations\<close>






section \<open>Properties of a chart\<close>





section \<open>Example postings\<close>

definition cash_sale :: "entry list" where
  "cash_sale =
    [\<lparr>account = ''1000'', debit = Some 1200, credit = None\<rparr>,
     \<lparr>account = ''4000'', debit = None, credit = Some 1000\<rparr>,
     \<lparr>account = ''2100'', debit = None, credit = Some 200\<rparr>]"




definition unbalanced_posting :: "entry list" where
  "unbalanced_posting =
    [\<lparr>account = ''1000'', debit = Some 500, credit = None\<rparr>,
     \<lparr>account = ''4000'', debit = None, credit = Some 400\<rparr>]"



section \<open>The program without the attribute\<close>

text \<open>
  In a store whose instance has no attribute \<open>companies\<close> every method raises at its
  first look-up. \<open>record_transaction\<close> catches the exception and returns \<open>False\<close>; the
  reports and the settings page let it through. Nothing is written.
\<close>

lemma company_of_unbound: "self_companies cs = None \<Longrightarrow> company_of cs company_id = Inl AttributeError"
  by (simp add: company_of_def getattr_companies_def)

lemma update_and_append_unbound:
  "self_companies cs = None \<Longrightarrow> update_and_append cs company_id dt descr es vat = Inl AttributeError"
  by (simp add: update_and_append_def getattr_companies_def and_then_def)

lemma record_transaction_unbound:
  "self_companies cs = None \<Longrightarrow> record_transaction cs company_id dt descr es vat = (False, cs)"
  by (simp add: record_transaction_def update_and_append_unbound)

lemma get_account_balance_unbound:
  "self_companies cs = None \<Longrightarrow> get_account_balance cs company_id ty = Inl AttributeError"
  by (simp add: get_account_balance_def company_of_unbound and_then_def)

lemma calculate_net_income_unbound:
  "self_companies cs = None \<Longrightarrow> calculate_net_income cs company_id = Inl AttributeError"
  by (simp add: calculate_net_income_def get_account_balance_unbound and_then_def)


lemma get_transaction_history_unbound:
  "self_companies cs = None \<Longrightarrow> get_transaction_history cs company_id = Inl AttributeError"
  by (simp add: get_transaction_history_def company_of_unbound and_then_def)






text \<open>
  The store that \<open>__init__\<close> leaves has no attribute, and no operation gives it one:
  it is the only store the program reaches.
\<close>

lemma setup_unbound: "self_companies setup_session_state = None"
  by (simp add: setup_session_state_def)


lemma setup_company_1:
  "session_companies setup_session_state ''company_1'' =
     Some \<lparr>name = ''Tech Solutions Ltd'', transactions = [],
           accounts = create_chart_of_accounts, color = ''#1E88E5''\<rparr>"
  by (simp add: setup_session_state_def initial_companies_def)

lemma fresh_chart_balances: "list_all (\<lambda>(k, a). balance a = 0) create_chart_of_accounts"
  by (simp add: create_chart_of_accounts_def acct_def)

lemma type_total_zero:
  "list_all (\<lambda>(k, a). balance a = 0) accs \<Longrightarrow> type_total ty accs = 0"
  by (induction accs) (auto simp: type_total_def)



section \<open>Rejected postings\<close>

text \<open>
  Claim C3. For every registry and every entry list whose total debits differ from its
  total credits, \<open>record_transaction\<close> returns \<open>False\<close> and the registry after the call
  is the registry before it: no balance of any company changes and nothing is appended
  to any log.
\<close>

theorem unbalanced_posting_rejected:
  assumes "total_debits es \<noteq> total_credits es"
  shows "record_transaction cs company_id dt descr es vat = (False, cs)"
  using assms by (simp add: record_transaction_def)

theorem unbalanced_posting_rejected_witness:
  "total_debits unbalanced_posting \<noteq> total_credits unbalanced_posting \<and>
   record_transaction setup_session_state ''company_1'' (2024, 1, 15) ''Sale'' unbalanced_posting (1 / 5)
     = (False, setup_session_state)"
proof -
  have h: "total_debits unbalanced_posting \<noteq> total_credits unbalanced_posting"
    by (simp add: unbalanced_posting_def total_debits_def total_credits_def get_debit_def get_credit_def)
  from unbalanced_posting_rejected [OF h] h show ?thesis by simp
qed

text \<open>
  The code has one sign of rejection, the value \<open>False\<close>, and in a store without the
  attribute every posting gets it: the exception of the first look-up is caught before
  a balance or a log is touched.
\<close>





section \<open>The cash sale\<close>

text \<open>
  Claim C6, evaluated on the code. On the store that \<open>__init__\<close> leaves, the cash sale
  is balanced, yet \<open>record_transaction\<close> returns \<open>False\<close> and writes nothing: the
  look-up of \<open>self.companies\<close> in the first round of the loop raises, and the
  \<open>except\<close> clause turns the exception into \<open>False\<close>. The stored asset and income
  totals stay at zero, and \<open>get_account_balance\<close> raises for both classes.
\<close>

theorem cash_sale_not_recorded:
  "total_debits cash_sale = total_credits cash_sale \<and>
   update_and_append setup_session_state ''company_1'' (2024, 1, 15) ''Cash sale'' cash_sale (1 / 5)
     = Inl AttributeError \<and>
   record_transaction setup_session_state ''company_1'' (2024, 1, 15) ''Cash sale'' cash_sale (1 / 5)
     = (False, setup_session_state) \<and>
   map_option (\<lambda>c. type_total ''asset'' (accounts c))
     (session_companies setup_session_state ''company_1'') = Some 0 \<and>
   map_option (\<lambda>c. type_total ''income'' (accounts c))
     (session_companies setup_session_state ''company_1'') = Some 0 \<and>
   get_account_balance setup_session_state ''company_1'' ''asset'' = Inl AttributeError \<and>
   get_account_balance setup_session_state ''company_1'' ''income'' = Inl AttributeError"
  by (simp add: cash_sale_def total_debits_def total_credits_def get_debit_def get_credit_def
        update_and_append_unbound record_transaction_unbound get_account_balance_unbound
        setup_unbound setup_company_1 type_total_zero fresh_chart_balances)

section \<open>The accounting equation and the signed total\<close>





section \<open>Transaction ids\<close>



section \<open>Resetting a company\<close>



section \<open>The VAT rate\<close>



section \<open>The balance sheet\<close>



end
